theory Spec2Isabelle
  imports Complex_Main
begin

section \<open>Bulk tanker delivery: data model\<close>

text \<open>
  The embedding follows \<^verbatim>\<open>app/models/bulk_tanker.py\<close> (the tables) and
  \<^verbatim>\<open>app/api/v1/bulk_tanker_delivery.py\<close> (the request models and the handlers).
  Field names are those of the source; where two tables share a column name the
  selector carries a table prefix (\<open>tv_\<close> vehicle, \<open>tc_\<close> compartment, \<open>fp_\<close> fuel
  product, \<open>dl_\<close> delivery, \<open>ca_\<close> compartment assignment, \<open>ck_\<close> contamination
  check). Columns that no handler reads or writes are left out.
\<close>

type_synonym datetime = int

datatype FuelType =
  DIESEL | PETROL | KEROSENE | JET_FUEL | HEATING_OIL | MARINE_FUEL | BIOFUEL

datatype CompartmentStatus =
  OPERATIONAL | MAINTENANCE_REQUIRED | FAILED | CLEANING_IN_PROGRESS | OUT_OF_SERVICE

datatype TankerCertificationStatus =
  CERTIFIED | EXPIRED | SUSPENDED | PENDING_RENEWAL

fun certification_value :: "TankerCertificationStatus \<Rightarrow> string" where
  "certification_value CERTIFIED = ''certified''"
| "certification_value EXPIRED = ''expired''"
| "certification_value SUSPENDED = ''suspended''"
| "certification_value PENDING_RENEWAL = ''pending_renewal''"

subsection \<open>Python's \<open>Decimal\<close>\<close>

text \<open>
  A finite \<open>Decimal\<close> is a signed coefficient and an exponent; its value is
  \<open>coefficient * 10 ^ exponent\<close>. Arithmetic runs in the default context:
  28 significant digits, \<open>ROUND_HALF_EVEN\<close>, division by zero trapped. Each
  operation computes the exact result and then rounds it to the precision
  (\<open>dec_fix\<close>). The exponent limits of the context (\<open>\<plusminus>999999\<close>) are far
  from anything the handlers compute and are not modelled; neither are NaN,
  infinities and the sign of zero.
\<close>

datatype Decimal = Decimal (coefficient: int) (exponent: int)

definition prec :: nat where
  "prec = 28"

fun ndigits :: "nat \<Rightarrow> nat" where
  "ndigits n = (if n < 10 then 1 else Suc (ndigits (n div 10)))"

definition pow10 :: "int \<Rightarrow> rat" where
  "pow10 e = (if 0 \<le> e then 10 ^ nat e else 1 / 10 ^ nat (- e))"

definition dec_val :: "Decimal \<Rightarrow> rat" where
  "dec_val d = of_int (coefficient d) * pow10 (exponent d)"

definition round_half_even :: "nat \<Rightarrow> nat \<Rightarrow> nat" where
  \<comment> \<open>drop the last \<open>s\<close> digits of \<open>c\<close>, rounding half to even\<close>
  "round_half_even c s =
     (let q = c div 10 ^ s; r = c mod 10 ^ s
      in if 2 * r > 10 ^ s \<or> (2 * r = 10 ^ s \<and> odd q) then Suc q else q)"

definition dec_fix :: "int \<Rightarrow> int \<Rightarrow> Decimal" where
  "dec_fix c e =
     (let n = ndigits (nat \<bar>c\<bar>)
      in if n \<le> prec then Decimal c e
         else let s = n - prec; m = round_half_even (nat \<bar>c\<bar>) s
              in if ndigits m > prec
                 then Decimal (sgn c * int (m div 10)) (e + int s + 1)
                 else Decimal (sgn c * int m) (e + int s))"

definition Decimal_of_int :: "int \<Rightarrow> Decimal" where
  \<comment> \<open>\<open>Decimal(str(n))\<close> for a Python int \<open>n\<close>\<close>
  "Decimal_of_int n = Decimal n 0"

definition dec_add :: "Decimal \<Rightarrow> Decimal \<Rightarrow> Decimal" where
  "dec_add x y =
     (let e = min (exponent x) (exponent y)
      in dec_fix (coefficient x * 10 ^ nat (exponent x - e)
                  + coefficient y * 10 ^ nat (exponent y - e)) e)"

definition dec_mul :: "Decimal \<Rightarrow> Decimal \<Rightarrow> Decimal" where
  "dec_mul x y = dec_fix (coefficient x * coefficient y) (exponent x + exponent y)"

function strip_zeros :: "nat \<Rightarrow> int \<Rightarrow> int \<Rightarrow> nat \<times> int" where
  \<comment> \<open>an exact quotient is brought as close to the ideal exponent as possible\<close>
  "strip_zeros c e ideal =
     (if e < ideal \<and> c mod 10 = 0 then strip_zeros (c div 10) (e + 1) ideal else (c, e))"
  by pat_completeness auto
termination
  by (relation "measure (\<lambda>(c, e, ideal). nat (ideal - e))") auto

definition dec_div :: "Decimal \<Rightarrow> Decimal \<Rightarrow> Decimal option" where
  \<comment> \<open>\<open>None\<close>: \<open>DivisionByZero\<close> or \<open>InvalidOperation\<close> (0 / 0) is raised\<close>
  "dec_div x y =
     (if coefficient y = 0 then None
      else if coefficient x = 0 then Some (Decimal 0 (exponent x - exponent y))
      else
        let a = nat \<bar>coefficient x\<bar>; b = nat \<bar>coefficient y\<bar>;
            sg = sgn (coefficient x) * sgn (coefficient y);
            shift = int (ndigits b) - int (ndigits a) + int prec + 1;
            e = exponent x - exponent y - shift;
            num = (if 0 \<le> shift then a * 10 ^ nat shift else a);
            den = (if 0 \<le> shift then b else b * 10 ^ nat (- shift));
            q = num div den; r = num mod den
        in if r \<noteq> 0
           then Some (dec_fix (sg * int (if q mod 5 = 0 then q + 1 else q)) e)
           else (case strip_zeros q e (exponent x - exponent y) of
                   (q', e') \<Rightarrow> Some (dec_fix (sg * int q') e')))"


subsection \<open>Tables\<close>

record BulkTankerVehicles =
  tv_id :: int
  tv_project_id :: int
  total_capacity_liters :: int
  compartment_count :: int
  dot_certified :: bool
  hazmat_certification :: bool
  certification_status :: TankerCertificationStatus
  last_inspection :: "datetime option"

record TankerCompartments =
  tc_id :: int
  tc_tanker_vehicle_id :: int
  capacity_liters :: int
  operational_status :: CompartmentStatus
  last_product_id :: "int option"

record FuelProducts =
  fp_id :: int
  product_code :: string
  fuel_type :: FuelType
  density_kg_per_liter :: Decimal
  hazmat_class :: string
  cross_contamination_risk :: "string list"
  cleaning_required_after :: "string list"

type_synonym incident = "(string \<times> string) list"

record BulkTankerDeliveries =
  dl_id :: int
  delivery_reference :: string
  dl_project_id :: int
  dl_tanker_vehicle_id :: int
  dl_driver_id :: "int option"
  dl_planned_departure :: datetime
  dl_planned_completion :: datetime
  dl_delivery_type :: string
  total_volume_liters :: int
  total_weight_kg :: Decimal
  capacity_utilization_percent :: "Decimal option"
  compartments_used :: int
  delivery_status :: string
  dl_actual_departure :: "datetime option"
  dl_actual_completion :: "datetime option"
  dl_distance_traveled_km :: "Decimal option"
  dl_fuel_consumed_liters :: "Decimal option"
  co2_emissions_kg :: "Decimal option"
  dl_safety_incidents :: "incident list"
  created_at :: datetime
  updated_at :: datetime

record CompartmentDeliveryAssignments =
  ca_id :: int
  ca_delivery_id :: int
  ca_compartment_id :: int
  ca_fuel_product_id :: int
  ca_delivery_location_id :: int
  ca_assigned_volume_liters :: int
  calculated_weight_kg :: Decimal
  ca_loading_sequence :: "int option"
  ca_special_handling_requirements :: "string option"
  assignment_status :: string

text \<open>
  The store: one map per table keyed by the primary key, the assignment rows in
  insertion order, and the two serial sequences that hand out primary keys.
\<close>

record store =
  vehicles :: "int \<rightharpoonup> BulkTankerVehicles"
  compartments :: "int \<rightharpoonup> TankerCompartments"
  products :: "int \<rightharpoonup> FuelProducts"
  deliveries :: "int \<rightharpoonup> BulkTankerDeliveries"
  assignments :: "CompartmentDeliveryAssignments list"
  delivery_seq :: int
  assignment_seq :: int

definition last_product :: "store \<Rightarrow> TankerCompartments \<Rightarrow> FuelProducts option" where
  \<comment> \<open>the relationship \<open>TankerCompartments.last_product\<close> over \<open>last_product_id\<close>\<close>
  "last_product db compartment =
     (case last_product_id compartment of None \<Rightarrow> None | Some pid \<Rightarrow> products db pid)"

subsection \<open>Request and response models\<close>

record CompartmentAssignmentRequest =
  compartment_id :: int
  fuel_product_id :: int
  assigned_volume_liters :: int
  delivery_location_id :: int
  loading_sequence :: "int option"
  special_handling_requirements :: "string option"

record BulkTankerDeliveryRequest =
  tanker_vehicle_id :: int
  driver_id :: "int option"
  planned_departure :: datetime
  planned_completion :: datetime
  delivery_type :: string
  compartment_assignments :: "CompartmentAssignmentRequest list"

record CrossContaminationCheck =
  ck_compartment_id :: int
  current_product :: "string option"
  requested_product :: string
  contamination_risk :: bool
  cleaning_required :: bool
  estimated_cleaning_time_minutes :: "int option"
  cleaning_cost_estimate :: "Decimal option"

record DeliveryStatusUpdate =
  su_delivery_status :: string
  actual_departure :: "datetime option"
  actual_completion :: "datetime option"
  distance_traveled_km :: "Decimal option"
  fuel_consumed_liters :: "Decimal option"
  safety_incidents :: "incident list option"

record CleaningEstimate =
  ce_compartment_id :: int
  ce_current_product :: "string option"
  ce_target_product :: string
  time_required :: int
  cost_estimate :: int
  cleaning_procedure :: string
  certification_required :: bool
  downtime_cost :: int

subsection \<open>Errors\<close>

text \<open>
  Every \<open>raise\<close> of the handlers is a value. The three structured 422 details
  keep their payload: \<open>ComplianceViolation vehicle_id last_inspection
  certification_status required_actions\<close>, \<open>CapacityExceeded compartment_id
  compartment_capacity requested_volume overflow_amount\<close> and \<open>ContaminationRisk
  compartment_id current_product requested_product cleaning_required
  estimated_cleaning_time\<close>. \<open>RequestValidationError\<close> is the 422 the framework
  returns when a request model does not validate; \<open>NoResultFound\<close> and
  \<open>DecimalException\<close> are the uncaught exceptions of \<open>scalar_one()\<close> and of a
  \<open>Decimal\<close> division by zero.
\<close>

datatype error =
    TankerNotFound
  | CompartmentNotFound int
  | FuelProductNotFound int
  | TargetProductNotFound
  | DeliveryNotFound
  | ComplianceViolation int "datetime option" string "string list"
  | CapacityExceeded int int int int
  | ContaminationRisk int "string option" string bool "int option"
  | RequestValidationError
  | NoResultFound
  | DecimalException

section \<open>Cross-contamination validation\<close>

text \<open>
  The body of the loop of \<open>validate_cross_contamination\<close> after both lookups
  (\<open>check_assignment\<close>): the contamination flags, then the capacity check, then
  the check record. The loop stops at the first \<open>raise\<close>.
\<close>

definition check_assignment ::
  "CompartmentAssignmentRequest \<Rightarrow> TankerCompartments \<Rightarrow> FuelProducts option \<Rightarrow> FuelProducts
     \<Rightarrow> error + CrossContaminationCheck" where
  "check_assignment assignment compartment previous requested =
     (let risk = (case previous of None \<Rightarrow> False
                  | Some lp \<Rightarrow> product_code lp \<in> set (cross_contamination_risk requested));
          cleaning = (case previous of None \<Rightarrow> False
                  | Some lp \<Rightarrow> product_code lp \<in> set (cross_contamination_risk requested)
                             \<and> product_code lp \<in> set (cleaning_required_after requested))
      in if assigned_volume_liters assignment > capacity_liters compartment
         then Inl (CapacityExceeded (tc_id compartment) (capacity_liters compartment)
                     (assigned_volume_liters assignment)
                     (assigned_volume_liters assignment - capacity_liters compartment))
         else Inr \<lparr> ck_compartment_id = tc_id compartment,
                    current_product = map_option product_code previous,
                    requested_product = product_code requested,
                    contamination_risk = risk,
                    cleaning_required = cleaning,
                    estimated_cleaning_time_minutes = (if cleaning then Some 120 else None),
                    cleaning_cost_estimate = (if cleaning then Some (Decimal 45000 (- 2)) else None) \<rparr>)"

definition check_one :: "store \<Rightarrow> CompartmentAssignmentRequest \<Rightarrow> error + CrossContaminationCheck" where
  \<comment> \<open>one pass through the loop body: the two lookups, then the checks\<close>
  "check_one db assignment =
     (case compartments db (compartment_id assignment) of
        None \<Rightarrow> Inl (CompartmentNotFound (compartment_id assignment))
      | Some compartment \<Rightarrow>
          (case products db (fuel_product_id assignment) of
             None \<Rightarrow> Inl (FuelProductNotFound (fuel_product_id assignment))
           | Some requested \<Rightarrow>
               check_assignment assignment compartment (last_product db compartment) requested))"

fun validate_loop ::
  "store \<Rightarrow> CompartmentAssignmentRequest list \<Rightarrow> CrossContaminationCheck list
     \<Rightarrow> error + CrossContaminationCheck list" where
  "validate_loop db [] contamination_checks = Inr contamination_checks"
| "validate_loop db (assignment # rest) contamination_checks =
     (case check_one db assignment of
        Inl e \<Rightarrow> Inl e
      | Inr c \<Rightarrow> validate_loop db rest (contamination_checks @ [c]))"

definition validate_cross_contamination ::
  "store \<Rightarrow> CompartmentAssignmentRequest list \<Rightarrow> error + CrossContaminationCheck list" where
  "validate_cross_contamination db body = validate_loop db body []"


section \<open>Cleaning estimate\<close>

definition get_cleaning_estimate :: "store \<Rightarrow> int \<Rightarrow> int \<Rightarrow> error + CleaningEstimate" where
  "get_cleaning_estimate db cid target_product_id =
     (case compartments db cid of
        None \<Rightarrow> Inl (CompartmentNotFound cid)
      | Some compartment \<Rightarrow>
          (case products db target_product_id of
             None \<Rightarrow> Inl TargetProductNotFound
           | Some target \<Rightarrow>
               let estimate = \<lparr> ce_compartment_id = cid,
                     ce_current_product = map_option product_code (last_product db compartment),
                     ce_target_product = product_code target,
                     time_required = 120,
                     cost_estimate = 450,
                     cleaning_procedure = ''steam_cleaning_with_neutralization'',
                     certification_required = True,
                     downtime_cost = 200 \<rparr>
               in (case last_product db compartment of
                     None \<Rightarrow> Inr estimate
                   | Some lp \<Rightarrow>
                       if product_code lp \<in> set (cleaning_required_after target)
                          \<and> fuel_type lp \<noteq> fuel_type target
                       then Inr (estimate \<lparr> time_required := 180, cost_estimate := 675,
                                   cleaning_procedure := ''comprehensive_decontamination'' \<rparr>)
                       else Inr estimate)))"

section \<open>Delivery creation\<close>

fun digits_of :: "nat \<Rightarrow> string" where
  "digits_of n =
     (if n < 10 then [''0123456789'' ! n] else digits_of (n div 10) @ [''0123456789'' ! (n mod 10)])"

definition format_03d :: "int \<Rightarrow> string" where
  \<comment> \<open>the format specification \<open>:03d\<close>: zero padding to width 3, the sign counted\<close>
  "format_03d i =
     (if i < 0
      then CHR ''-'' # replicate (2 - length (digits_of (nat (- i)))) CHR ''0'' @ digits_of (nat (- i))
      else replicate (3 - length (digits_of (nat i))) CHR ''0'' @ digits_of (nat i))"

definition find_tanker :: "store \<Rightarrow> int \<Rightarrow> int \<Rightarrow> BulkTankerVehicles option" where
  \<comment> \<open>the query on \<open>id\<close> and \<open>project_id\<close>\<close>
  "find_tanker db vid project =
     (case vehicles db vid of
        None \<Rightarrow> None
      | Some tanker \<Rightarrow> if tv_project_id tanker = project then Some tanker else None)"

fun totals_loop ::
  "store \<Rightarrow> CompartmentAssignmentRequest list \<Rightarrow> int \<Rightarrow> Decimal \<Rightarrow> error + int \<times> Decimal" where
  "totals_loop db [] total_volume total_weight = Inr (total_volume, total_weight)"
| "totals_loop db (assignment # rest) total_volume total_weight =
     (case products db (fuel_product_id assignment) of
        None \<Rightarrow> Inl NoResultFound
      | Some product \<Rightarrow>
          totals_loop db rest
            (total_volume + assigned_volume_liters assignment)
            (dec_add total_weight
               (dec_mul (Decimal_of_int (assigned_volume_liters assignment))
                  (density_kg_per_liter product))))"

fun add_assignments ::
  "store \<Rightarrow> int \<Rightarrow> CompartmentAssignmentRequest list \<Rightarrow> error + store" where
  "add_assignments db did [] = Inr db"
| "add_assignments db did (assignment # rest) =
     (case products db (fuel_product_id assignment) of
        None \<Rightarrow> Inl NoResultFound
      | Some product \<Rightarrow>
          add_assignments
            (db \<lparr> assignments := assignments db @
                    [\<lparr> ca_id = assignment_seq db,
                       ca_delivery_id = did,
                       ca_compartment_id = compartment_id assignment,
                       ca_fuel_product_id = fuel_product_id assignment,
                       ca_delivery_location_id = delivery_location_id assignment,
                       ca_assigned_volume_liters = assigned_volume_liters assignment,
                       calculated_weight_kg =
                         dec_mul (Decimal_of_int (assigned_volume_liters assignment))
                           (density_kg_per_liter product),
                       ca_loading_sequence = loading_sequence assignment,
                       ca_special_handling_requirements = special_handling_requirements assignment,
                       assignment_status = ''assigned'' \<rparr>],
                  assignment_seq := assignment_seq db + 1 \<rparr>)
            did rest)"

text \<open>
  The row built by the call \<open>BulkTankerDeliveries(...)\<close>; the primary key is the
  one the flush assigns, the remaining columns take their defaults.
\<close>

definition new_delivery ::
  "string \<Rightarrow> datetime \<Rightarrow> int \<Rightarrow> BulkTankerDeliveryRequest \<Rightarrow> BulkTankerVehicles
     \<Rightarrow> int \<Rightarrow> int \<Rightarrow> Decimal \<Rightarrow> Decimal \<Rightarrow> BulkTankerDeliveries" where
  "new_delivery today now project request tanker did total_volume total_weight ratio =
     \<lparr> dl_id = did,
       delivery_reference = ''BT-DLV-'' @ today @ ''-'' @ format_03d (tv_id tanker),
       dl_project_id = project,
       dl_tanker_vehicle_id = tanker_vehicle_id request,
       dl_driver_id = driver_id request,
       dl_planned_departure = planned_departure request,
       dl_planned_completion = planned_completion request,
       dl_delivery_type = delivery_type request,
       total_volume_liters = total_volume,
       total_weight_kg = total_weight,
       capacity_utilization_percent = Some (dec_mul ratio (Decimal_of_int 100)),
       compartments_used = int (length (compartment_assignments request)),
       delivery_status = ''planned'',
       dl_actual_departure = None,
       dl_actual_completion = None,
       dl_distance_traveled_km = None,
       dl_fuel_consumed_liters = None,
       co2_emissions_kg = None,
       dl_safety_incidents = [],
       created_at = now,
       updated_at = now \<rparr>"

text \<open>
  \<open>create_bulk_tanker_delivery today now db project request\<close>: \<open>today\<close> is the
  \<open>%y%m%d\<close> rendering of the clock and \<open>now\<close> its reading for the timestamp
  columns. The result pairs the outcome with the store as the handler leaves
  it; every \<open>raise\<close> happens before the commit, so an error comes with the
  store it started from. On success the outcome is the delivery row, of which
  the JSON response is a projection.
\<close>

definition create_bulk_tanker_delivery ::
  "string \<Rightarrow> datetime \<Rightarrow> store \<Rightarrow> int \<Rightarrow> BulkTankerDeliveryRequest
     \<Rightarrow> (error + BulkTankerDeliveries) \<times> store" where
  "create_bulk_tanker_delivery today now db project request =
     (case find_tanker db (tanker_vehicle_id request) project of
        None \<Rightarrow> (Inl TankerNotFound, db)
      | Some tanker \<Rightarrow>
          if \<not> dot_certified tanker \<or> certification_status tanker \<noteq> CERTIFIED
          then (Inl (ComplianceViolation (tv_id tanker) (last_inspection tanker)
                       (certification_value (certification_status tanker))
                       [''DOT inspection'', ''Hazmat certification renewal'']), db)
          else
            (case validate_cross_contamination db (compartment_assignments request) of
               Inl e \<Rightarrow> (Inl e, db)
             | Inr compartment_checks \<Rightarrow>
                 (case filter contamination_risk compartment_checks of
                    issue # _ \<Rightarrow>
                      (Inl (ContaminationRisk (ck_compartment_id issue) (current_product issue)
                              (requested_product issue) (cleaning_required issue)
                              (estimated_cleaning_time_minutes issue)), db)
                  | [] \<Rightarrow>
                      (case totals_loop db (compartment_assignments request) 0 (Decimal 0 0) of
                         Inl e \<Rightarrow> (Inl e, db)
                       | Inr (total_volume, total_weight) \<Rightarrow>
                           (case dec_div (Decimal_of_int total_volume)
                                   (Decimal_of_int (total_capacity_liters tanker)) of
                              None \<Rightarrow> (Inl DecimalException, db)
                            | Some ratio \<Rightarrow>
                                let delivery =
                                      new_delivery today now project request tanker
                                        (delivery_seq db) total_volume total_weight ratio;
                                    flushed =
                                      db \<lparr> deliveries := (deliveries db)(dl_id delivery \<mapsto> delivery),
                                           delivery_seq := delivery_seq db + 1 \<rparr>
                                in (case add_assignments flushed (dl_id delivery)
                                           (compartment_assignments request) of
                                      Inl e \<Rightarrow> (Inl e, db)
                                    | Inr committed \<Rightarrow> (Inr delivery, committed)))))))"

section \<open>Status update\<close>

definition truthy :: "Decimal \<Rightarrow> bool" where
  \<comment> \<open>a \<open>Decimal\<close> in a condition: true unless zero\<close>
  "truthy d = (coefficient d \<noteq> 0)"

definition update_delivery_status ::
  "datetime \<Rightarrow> store \<Rightarrow> int \<Rightarrow> DeliveryStatusUpdate \<Rightarrow> (error + BulkTankerDeliveries) \<times> store" where
  "update_delivery_status now db did status_update =
     (case deliveries db did of
        None \<Rightarrow> (Inl DeliveryNotFound, db)
      | Some delivery \<Rightarrow>
          let d1 = delivery \<lparr> delivery_status := su_delivery_status status_update \<rparr>;
              d2 = (case actual_departure status_update of
                      None \<Rightarrow> d1
                    | Some t \<Rightarrow> d1 \<lparr> dl_actual_departure := Some t \<rparr>);
              d3 = (case actual_completion status_update of
                      None \<Rightarrow> d2
                    | Some t \<Rightarrow>
                        (case (distance_traveled_km status_update, fuel_consumed_liters status_update) of
                           (Some km, Some liters) \<Rightarrow>
                             if truthy km \<and> truthy liters
                             then d2 \<lparr> dl_actual_completion := Some t,
                                       dl_distance_traveled_km := Some km,
                                       dl_fuel_consumed_liters := Some liters,
                                       co2_emissions_kg := Some (dec_mul liters (Decimal 264 (- 2))) \<rparr>
                             else d2 \<lparr> dl_actual_completion := Some t \<rparr>
                         | _ \<Rightarrow> d2 \<lparr> dl_actual_completion := Some t \<rparr>));
              d4 = (case safety_incidents status_update of
                      Some (i # incidents) \<Rightarrow> d3 \<lparr> dl_safety_incidents := i # incidents \<rparr>
                    | _ \<Rightarrow> d3);
              d5 = d4 \<lparr> updated_at := now \<rparr>
          in (Inr d5, db \<lparr> deliveries := (deliveries db)(did \<mapsto> d5) \<rparr>))"

section \<open>Request validation\<close>

text \<open>
  The framework validates a request body against its model before the handler
  runs. A \<open>regex\<close> constraint \<open>^(a|b|...)$\<close> is applied with \<open>re.match\<close>, where
  \<open>$\<close> also matches just before one trailing newline.
\<close>

definition regex_alternatives :: "string list \<Rightarrow> string \<Rightarrow> bool" where
  "regex_alternatives alts s = (s \<in> set alts \<or> s \<in> set (map (\<lambda>a. a @ [CHR 0x0A]) alts))"

definition validate_volume :: "int \<Rightarrow> string + int" where
  "validate_volume v =
     (if v \<le> 0 then Inl ''Volume must be positive''
      else if v > 50000 then Inl ''Volume exceeds reasonable compartment capacity''
      else Inr v)"

definition validate_completion_time :: "datetime \<Rightarrow> datetime \<Rightarrow> string + datetime" where
  "validate_completion_time v departure =
     (if v \<le> departure then Inl ''Completion time must be after departure time'' else Inr v)"

definition validate_assignments ::
  "CompartmentAssignmentRequest list \<Rightarrow> string + CompartmentAssignmentRequest list" where
  "validate_assignments v =
     (if length v = 0 then Inl ''At least one compartment assignment is required''
      else if length v > 12 then Inl ''Too many compartment assignments''
      else if length (map compartment_id v) \<noteq> card (set (map compartment_id v))
      then Inl ''Duplicate compartment assignments not allowed''
      else Inr v)"

definition valid_CompartmentAssignmentRequest :: "CompartmentAssignmentRequest \<Rightarrow> bool" where
  "valid_CompartmentAssignmentRequest a =
     (assigned_volume_liters a > 0
      \<and> \<not> isl (validate_volume (assigned_volume_liters a))
      \<and> (case loading_sequence a of None \<Rightarrow> True | Some n \<Rightarrow> n > 0))"

definition valid_BulkTankerDeliveryRequest :: "BulkTankerDeliveryRequest \<Rightarrow> bool" where
  "valid_BulkTankerDeliveryRequest r =
     (\<not> isl (validate_completion_time (planned_completion r) (planned_departure r))
      \<and> regex_alternatives [''standard'', ''emergency'', ''scheduled''] (delivery_type r)
      \<and> list_all valid_CompartmentAssignmentRequest (compartment_assignments r)
      \<and> length (compartment_assignments r) \<ge> 1
      \<and> \<not> isl (validate_assignments (compartment_assignments r)))"

definition delivery_statuses :: "string list" where
  "delivery_statuses =
     [''planned'', ''dispatched'', ''loading'', ''in_transit'', ''unloading'', ''completed'',
      ''cancelled'']"

definition valid_DeliveryStatusUpdate :: "DeliveryStatusUpdate \<Rightarrow> bool" where
  "valid_DeliveryStatusUpdate u = regex_alternatives delivery_statuses (su_delivery_status u)"

text \<open>The three routes: validation of the body, then the handler.\<close>

definition post_validate_contamination ::
  "store \<Rightarrow> CompartmentAssignmentRequest list \<Rightarrow> error + CrossContaminationCheck list" where
  "post_validate_contamination db body =
     (if list_all valid_CompartmentAssignmentRequest body
      then validate_cross_contamination db body
      else Inl RequestValidationError)"

definition post_delivery ::
  "string \<Rightarrow> datetime \<Rightarrow> store \<Rightarrow> int \<Rightarrow> BulkTankerDeliveryRequest
     \<Rightarrow> (error + BulkTankerDeliveries) \<times> store" where
  "post_delivery today now db project request =
     (if valid_BulkTankerDeliveryRequest request
      then create_bulk_tanker_delivery today now db project request
      else (Inl RequestValidationError, db))"

definition put_delivery_status ::
  "datetime \<Rightarrow> store \<Rightarrow> int \<Rightarrow> DeliveryStatusUpdate \<Rightarrow> (error + BulkTankerDeliveries) \<times> store" where
  "put_delivery_status now db did status_update =
     (if valid_DeliveryStatusUpdate status_update
      then update_delivery_status now db did status_update
      else (Inl RequestValidationError, db))"

section \<open>Example data\<close>

text \<open>
  A small depot used to run the handlers on concrete inputs. Tanker 1 is
  certified and owns compartments 1 to 3 of 10000 litres each; compartment 2
  last carried JET-A1. Tanker 2 has an expired certification and owns
  compartment 4, which is under maintenance. Tanker 3 is DOT certified but has
  no hazmat certification; its compartment 5 holds 60000 litres.
\<close>

definition product_ULSD :: FuelProducts where
  "product_ULSD =
     \<lparr> fp_id = 1, product_code = ''ULSD'', fuel_type = DIESEL,
       density_kg_per_liter = Decimal 8400 (- 4), hazmat_class = ''3'',
       cross_contamination_risk = [], cleaning_required_after = [] \<rparr>"

definition product_JET_A1 :: FuelProducts where
  "product_JET_A1 =
     \<lparr> fp_id = 2, product_code = ''JET-A1'', fuel_type = JET_FUEL,
       density_kg_per_liter = Decimal 8040 (- 4), hazmat_class = ''3'',
       cross_contamination_risk = [], cleaning_required_after = [] \<rparr>"

definition product_ULSD10 :: FuelProducts where
  "product_ULSD10 =
     \<lparr> fp_id = 3, product_code = ''ULSD-10'', fuel_type = DIESEL,
       density_kg_per_liter = Decimal 8350 (- 4), hazmat_class = ''3'',
       cross_contamination_risk = [''JET-A1''], cleaning_required_after = [''JET-A1''] \<rparr>"

definition product_JET_A :: FuelProducts where
  "product_JET_A =
     \<lparr> fp_id = 4, product_code = ''JET-A'', fuel_type = JET_FUEL,
       density_kg_per_liter = Decimal 8100 (- 4), hazmat_class = ''3'',
       cross_contamination_risk = [''JET-A1''], cleaning_required_after = [''JET-A1''] \<rparr>"

definition depot_tanker :: "int \<Rightarrow> int \<Rightarrow> bool \<Rightarrow> TankerCertificationStatus \<Rightarrow> BulkTankerVehicles" where
  "depot_tanker i capacity hazmat certification =
     \<lparr> tv_id = i, tv_project_id = 1, total_capacity_liters = capacity, compartment_count = 3,
       dot_certified = True, hazmat_certification = hazmat,
       certification_status = certification, last_inspection = Some 100 \<rparr>"

definition depot_compartment ::
  "int \<Rightarrow> int \<Rightarrow> int \<Rightarrow> CompartmentStatus \<Rightarrow> int option \<Rightarrow> TankerCompartments" where
  "depot_compartment i owner capacity status previous =
     \<lparr> tc_id = i, tc_tanker_vehicle_id = owner, capacity_liters = capacity,
       operational_status = status, last_product_id = previous \<rparr>"

definition depot :: store where
  "depot =
     \<lparr> vehicles = map_of
         [(1, depot_tanker 1 30000 True CERTIFIED),
          (2, depot_tanker 2 30000 True EXPIRED),
          (3, depot_tanker 3 60000 False CERTIFIED)],
       compartments = map_of
         [(1, depot_compartment 1 1 10000 OPERATIONAL None),
          (2, depot_compartment 2 1 10000 OPERATIONAL (Some 2)),
          (3, depot_compartment 3 1 10000 OPERATIONAL None),
          (4, depot_compartment 4 2 10000 MAINTENANCE_REQUIRED None),
          (5, depot_compartment 5 3 60000 OPERATIONAL None)],
       products = map_of
         [(1, product_ULSD), (2, product_JET_A1), (3, product_ULSD10), (4, product_JET_A)],
       deliveries = Map.empty,
       assignments = [],
       delivery_seq = 1,
       assignment_seq = 1 \<rparr>"

definition assign :: "int \<Rightarrow> int \<Rightarrow> int \<Rightarrow> CompartmentAssignmentRequest" where
  "assign c p v =
     \<lparr> compartment_id = c, fuel_product_id = p, assigned_volume_liters = v,
       delivery_location_id = 1, loading_sequence = None,
       special_handling_requirements = None \<rparr>"

definition order :: "int \<Rightarrow> CompartmentAssignmentRequest list \<Rightarrow> BulkTankerDeliveryRequest" where
  "order v body =
     \<lparr> tanker_vehicle_id = v, driver_id = None, planned_departure = 10,
       planned_completion = 20, delivery_type = ''standard'',
       compartment_assignments = body \<rparr>"

definition status_request :: "string \<Rightarrow> DeliveryStatusUpdate" where
  "status_request s =
     \<lparr> su_delivery_status = s, actual_departure = None, actual_completion = None,
       distance_traveled_km = None, fuel_consumed_liters = None, safety_incidents = None \<rparr>"

definition planned_delivery :: BulkTankerDeliveries where
  "planned_delivery =
     \<lparr> dl_id = 1, delivery_reference = ''BT-DLV-250621-001'', dl_project_id = 1,
       dl_tanker_vehicle_id = 1, dl_driver_id = None, dl_planned_departure = 10,
       dl_planned_completion = 20, dl_delivery_type = ''standard'',
       total_volume_liters = 14000, total_weight_kg = Decimal 117600000 (- 4),
       capacity_utilization_percent = Some (Decimal 4666666666666666666666666667 (- 26)),
       compartments_used = 2, delivery_status = ''planned'',
       dl_actual_departure = None, dl_actual_completion = None,
       dl_distance_traveled_km = None, dl_fuel_consumed_liters = None,
       co2_emissions_kg = None, dl_safety_incidents = [], created_at = 5, updated_at = 5 \<rparr>"

definition assignment_row :: "int \<Rightarrow> int \<Rightarrow> int \<Rightarrow> string \<Rightarrow> CompartmentDeliveryAssignments" where
  "assignment_row i c v s =
     \<lparr> ca_id = i, ca_delivery_id = 1, ca_compartment_id = c, ca_fuel_product_id = 1,
       ca_delivery_location_id = 1, ca_assigned_volume_liters = v,
       calculated_weight_kg = Decimal (v * 8400) (- 4), ca_loading_sequence = None,
       ca_special_handling_requirements = None, assignment_status = s \<rparr>"

definition tracking :: store where
  \<comment> \<open>the depot with one planned delivery: one assignment still open, one completed\<close>
  "tracking =
     depot \<lparr> deliveries := [1 \<mapsto> planned_delivery],
             assignments := [assignment_row 1 1 9000 ''assigned'',
                             assignment_row 2 3 5000 ''completed''],
             delivery_seq := 2, assignment_seq := 3 \<rparr>"

section \<open>Evaluation rules\<close>

text \<open>
  The recursion equations of the digit loops are taken out of the simplifier
  and put back for literals only, so that they compute on concrete numbers and
  stay folded on variables.
\<close>

declare ndigits.simps [simp del] strip_zeros.simps [simp del] digits_of.simps [simp del]

lemma ndigits_numeral [simp]:
  "ndigits (numeral k) =
     (if (numeral k :: nat) < 10 then 1 else Suc (ndigits (numeral k div 10)))"
  by (rule ndigits.simps)

lemma ndigits_small [simp]: "ndigits 0 = 1" "ndigits (Suc 0) = 1"
  by (simp_all add: ndigits.simps)

lemma strip_zeros_numeral [simp]:
  "strip_zeros (numeral k) e ideal =
     (if e < ideal \<and> (numeral k :: nat) mod 10 = 0
      then strip_zeros (numeral k div 10) (e + 1) ideal else (numeral k, e))"
  by (rule strip_zeros.simps)

lemma strip_zeros_one [simp]: "strip_zeros (Suc 0) e ideal = (Suc 0, e)"
  by (simp add: strip_zeros.simps)

lemma digits_of_numeral [simp]:
  "digits_of (numeral k) =
     (if (numeral k :: nat) < 10 then [''0123456789'' ! numeral k]
      else digits_of (numeral k div 10) @ [''0123456789'' ! (numeral k mod 10)])"
  by (rule digits_of.simps)

lemma digits_of_small [simp]: "digits_of 0 = ''0''" "digits_of (Suc 0) = ''1''"
  by (simp_all add: digits_of.simps)

lemmas decimal_eval =
  dec_div_def dec_mul_def dec_add_def dec_fix_def round_half_even_def prec_def
  Decimal_of_int_def Let_def

lemmas example_defs =
  depot_def tracking_def depot_tanker_def depot_compartment_def assign_def order_def status_request_def
  product_ULSD_def product_JET_A1_def product_ULSD10_def product_JET_A_def
  planned_delivery_def assignment_row_def

lemmas handler_defs =
  create_bulk_tanker_delivery_def new_delivery_def find_tanker_def validate_cross_contamination_def
  check_one_def check_assignment_def last_product_def

section \<open>The validation loop\<close>

lemma validate_loop_Inr:
  "validate_loop db body acc = Inr checks \<Longrightarrow>
     (\<forall>a\<in>set body. \<not> isl (check_one db a))
     \<and> checks = acc @ map (\<lambda>a. projr (check_one db a)) body"
proof (induction body arbitrary: acc)
  case Nil
  then show ?case by simp
next
  case (Cons a body)
  from Cons.prems obtain c where c: "check_one db a = Inr c"
    and rest: "validate_loop db body (acc @ [c]) = Inr checks"
    by (auto split: sum.splits)
  from Cons.IH [OF rest] c show ?case by simp
qed



lemma check_one_Inr:
  "check_one db a = Inr ck \<Longrightarrow>
     \<exists>c p. compartments db (compartment_id a) = Some c
          \<and> products db (fuel_product_id a) = Some p
          \<and> check_assignment a c (last_product db c) p = Inr ck"
  by (auto simp: check_one_def split: option.splits)

lemma check_assignment_flags:
  assumes "check_assignment a c lp p = Inr ck"
  shows "contamination_risk ck =
           (\<exists>l. lp = Some l \<and> product_code l \<in> set (cross_contamination_risk p))"
    and "cleaning_required ck =
           (\<exists>l. lp = Some l \<and> product_code l \<in> set (cross_contamination_risk p)
                \<and> product_code l \<in> set (cleaning_required_after p))"
    and "estimated_cleaning_time_minutes ck = (if cleaning_required ck then Some 120 else None)"
    and "cleaning_cost_estimate ck = (if cleaning_required ck then Some (Decimal 45000 (- 2)) else None)"
    and "ck_compartment_id ck = tc_id c"
    and "current_product ck = map_option product_code lp"
    and "requested_product ck = product_code p"
    and "assigned_volume_liters a \<le> capacity_liters c"
  using assms
  by (auto simp: check_assignment_def Let_def split: if_splits option.splits)

section \<open>Contamination assessment\<close>

text \<open>
  Claim C5. Whenever the validation returns, it returns one check per assignment,
  in order; the check of an assignment has \<open>contamination_risk\<close> set exactly
  when the compartment has a last product whose code is in the requested
  product's \<open>cross_contamination_risk\<close>, and \<open>cleaning_required\<close> set exactly
  when that code is in \<open>cleaning_required_after\<close> as well; with no last product
  both flags are false.
\<close>

theorem contamination_assessment:
  assumes "validate_cross_contamination db body = Inr checks" and "i < length body"
  shows "length checks = length body \<and>
     (\<exists>c p. compartments db (compartment_id (body ! i)) = Some c
        \<and> products db (fuel_product_id (body ! i)) = Some p
        \<and> (contamination_risk (checks ! i) \<longleftrightarrow>
             (\<exists>l. last_product db c = Some l
                  \<and> product_code l \<in> set (cross_contamination_risk p)))
        \<and> (cleaning_required (checks ! i) \<longleftrightarrow>
             (\<exists>l. last_product db c = Some l
                  \<and> product_code l \<in> set (cross_contamination_risk p)
                  \<and> product_code l \<in> set (cleaning_required_after p)))
        \<and> (last_product db c = None \<longrightarrow>
             \<not> contamination_risk (checks ! i) \<and> \<not> cleaning_required (checks ! i)))"
proof -
  from assms(1) have pass: "\<forall>a\<in>set body. \<not> isl (check_one db a)"
    and checks: "checks = map (\<lambda>a. projr (check_one db a)) body"
    using validate_loop_Inr [of db body "[]" checks]
    by (simp_all add: validate_cross_contamination_def)
  from pass assms(2) have "\<not> isl (check_one db (body ! i))" by simp
  then obtain ck where ck: "check_one db (body ! i) = Inr ck"
    by (cases "check_one db (body ! i)") auto
  with checks assms(2) have nth: "checks ! i = ck" by simp
  from check_one_Inr [OF ck] obtain c p where
    c: "compartments db (compartment_id (body ! i)) = Some c" and
    p: "products db (fuel_product_id (body ! i)) = Some p" and
    ca: "check_assignment (body ! i) c (last_product db c) p = Inr ck"
    by blast
  from check_assignment_flags(1,2) [OF ca] c p nth checks show ?thesis
    by auto
qed

theorem contamination_assessment_witness:
  "validate_cross_contamination depot [assign 1 1 9000, assign 2 3 9000, assign 3 2 500]
     = Inr [\<lparr> ck_compartment_id = 1, current_product = None, requested_product = ''ULSD'',
               contamination_risk = False, cleaning_required = False,
               estimated_cleaning_time_minutes = None, cleaning_cost_estimate = None \<rparr>,
            \<lparr> ck_compartment_id = 2, current_product = Some ''JET-A1'', requested_product = ''ULSD-10'',
               contamination_risk = True, cleaning_required = True,
               estimated_cleaning_time_minutes = Some 120,
               cleaning_cost_estimate = Some (Decimal 45000 (- 2)) \<rparr>,
            \<lparr> ck_compartment_id = 3, current_product = None, requested_product = ''JET-A1'',
               contamination_risk = False, cleaning_required = False,
               estimated_cleaning_time_minutes = None, cleaning_cost_estimate = None \<rparr>]
   \<and> last_product depot (depot_compartment 2 1 10000 OPERATIONAL (Some 2)) = Some product_JET_A1
   \<and> product_code product_JET_A1 \<in> set (cross_contamination_risk product_ULSD10)"
proof -
  let ?body = "[assign 1 1 9000, assign 2 3 9000, assign 3 2 500]"
  obtain checks where v: "validate_cross_contamination depot ?body = Inr checks"
    by (simp add: handler_defs example_defs)
  have i: "(1::nat) < length ?body" by simp
  from contamination_assessment [OF v i] v show ?thesis
    by (simp add: handler_defs example_defs)
qed

section \<open>Outcomes of delivery creation\<close>

lemma validate_loop_Inl:
  "validate_loop db body acc = Inl e \<Longrightarrow> \<exists>a\<in>set body. check_one db a = Inl e"
  by (induction body arbitrary: acc) (auto split: sum.splits)

lemma check_one_Inl:
  "check_one db a = Inl e \<Longrightarrow>
     e = CompartmentNotFound (compartment_id a) \<or> e = FuelProductNotFound (fuel_product_id a)
     \<or> (\<exists>c. compartments db (compartment_id a) = Some c
            \<and> assigned_volume_liters a > capacity_liters c
            \<and> e = CapacityExceeded (tc_id c) (capacity_liters c) (assigned_volume_liters a)
                  (assigned_volume_liters a - capacity_liters c))"
  by (auto simp: check_one_def check_assignment_def Let_def split: option.splits if_splits)

lemma totals_loop_Inl: "totals_loop db body v w = Inl e \<Longrightarrow> e = NoResultFound"
  by (induction body arbitrary: v w) (auto split: option.splits)

lemma add_assignments_Inl: "add_assignments db did body = Inl e \<Longrightarrow> e = NoResultFound"
  by (induction body arbitrary: db) (auto split: option.splits)

lemma create_error_store:
  "create_bulk_tanker_delivery today now db project request = (Inl e, db') \<Longrightarrow> db' = db"
  by (auto simp: create_bulk_tanker_delivery_def Let_def
           split: option.splits if_splits sum.splits list.splits prod.splits)


lemma create_ContaminationRisk_origin:
  assumes "create_bulk_tanker_delivery today now db project request =
             (Inl (ContaminationRisk i cur req cl t), db')"
  shows "\<exists>checks issue others.
           validate_cross_contamination db (compartment_assignments request) = Inr checks
           \<and> filter contamination_risk checks = issue # others
           \<and> i = ck_compartment_id issue \<and> cur = current_product issue
           \<and> req = requested_product issue \<and> cl = cleaning_required issue
           \<and> t = estimated_cleaning_time_minutes issue"
proof (cases "validate_cross_contamination db (compartment_assignments request)")
  case (Inl e)
  then obtain a where "check_one db a = Inl e"
    using validate_loop_Inl [of db "compartment_assignments request" "[]" e]
    by (auto simp: validate_cross_contamination_def)
  then have "\<And>i cur req cl t. e \<noteq> ContaminationRisk i cur req cl t"
    using check_one_Inl by fastforce
  with Inl assms show ?thesis
    by (auto simp: create_bulk_tanker_delivery_def split: option.splits if_splits)
next
  case (Inr checks)
  with assms show ?thesis
    by (auto simp: create_bulk_tanker_delivery_def Let_def
             split: option.splits if_splits sum.splits list.splits prod.splits
             dest: totals_loop_Inl add_assignments_Inl)
qed

section \<open>Cleaning estimates\<close>

text \<open>
  Claim C9, as stated, fails: the rejection of a delivery reports the standard
  120 minutes also when the fuel types differ. Compartment 2 last carried
  JET-A1 (jet fuel); ULSD-10 (diesel) lists JET-A1 under both
  \<open>cross_contamination_risk\<close> and \<open>cleaning_required_after\<close>. The creation is
  rejected with an estimated cleaning time of 120, while the cleaning-estimate
  route answers 180 for the same compartment and product.
\<close>

theorem rejection_cleaning_time_counterexample:
  "fst (create_bulk_tanker_delivery ''250621'' 5 depot 1 (order 1 [assign 2 3 9000]))
     = Inl (ContaminationRisk 2 (Some ''JET-A1'') ''ULSD-10'' True (Some 120))
   \<and> fuel_type product_JET_A1 \<noteq> fuel_type product_ULSD10
   \<and> compartments depot 2 = Some (depot_compartment 2 1 10000 OPERATIONAL (Some 2))
   \<and> last_product depot (depot_compartment 2 1 10000 OPERATIONAL (Some 2)) = Some product_JET_A1
   \<and> products depot 3 = Some product_ULSD10
   \<and> map_sum id time_required (get_cleaning_estimate depot 2 3) = Inr 180"
  by (simp add: handler_defs get_cleaning_estimate_def example_defs)

text \<open>
  Claim C9, amended. When the last product's code is in the target product's
  \<open>cleaning_required_after\<close>, the cleaning-estimate route reports time 120 and
  cost 450 if the two products have the same fuel type, and time 180 and cost
  675 otherwise. The \<open>ContaminationRisk\<close> rejection of a delivery reports an
  estimated cleaning time of 120 whenever cleaning is required, whatever the
  fuel types, and none when it is not.
\<close>

theorem cleaning_estimate_policy:
  assumes "compartments db cid = Some c" and "last_product db c = Some lp"
    and "products db pid = Some p"
    and "product_code lp \<in> set (cleaning_required_after p)"
  shows "(\<exists>est. get_cleaning_estimate db cid pid = Inr est
            \<and> time_required est = (if fuel_type lp = fuel_type p then 120 else 180)
            \<and> cost_estimate est = (if fuel_type lp = fuel_type p then 450 else 675))
       \<and> (create_bulk_tanker_delivery today now db project request
             = (Inl (ContaminationRisk i cur rq cl t), db')
           \<longrightarrow> t = (if cl then Some 120 else None))"
proof
  from assms show "\<exists>est. get_cleaning_estimate db cid pid = Inr est
            \<and> time_required est = (if fuel_type lp = fuel_type p then 120 else 180)
            \<and> cost_estimate est = (if fuel_type lp = fuel_type p then 450 else 675)"
    by (simp add: get_cleaning_estimate_def Let_def)
next
  show "create_bulk_tanker_delivery today now db project request
             = (Inl (ContaminationRisk i cur rq cl t), db')
           \<longrightarrow> t = (if cl then Some 120 else None)"
  proof
    assume "create_bulk_tanker_delivery today now db project request
             = (Inl (ContaminationRisk i cur rq cl t), db')"
    from create_ContaminationRisk_origin [OF this] obtain checks issue others where
      v: "validate_cross_contamination db (compartment_assignments request) = Inr checks"
      and f: "filter contamination_risk checks = issue # others"
      and cl: "cl = cleaning_required issue" and t: "t = estimated_cleaning_time_minutes issue"
      by blast
    from f have "issue \<in> set (filter contamination_risk checks)" by simp
    then have "issue \<in> set checks" by simp
    with v obtain a where a: "a \<in> set (compartment_assignments request)"
      and "\<not> isl (check_one db a)" and "issue = projr (check_one db a)"
      using validate_loop_Inr [of db "compartment_assignments request" "[]" checks]
      by (auto simp: validate_cross_contamination_def)
    then have "check_one db a = Inr issue" by (cases "check_one db a") auto
    from check_one_Inr [OF this] obtain c' p' where
      "check_assignment a c' (last_product db c') p' = Inr issue" by blast
    from check_assignment_flags(3) [OF this] cl t show "t = (if cl then Some 120 else None)"
      by simp
  qed
qed

theorem cleaning_estimate_policy_witness:
  "map_sum id (\<lambda>est. (time_required est, cost_estimate est)) (get_cleaning_estimate depot 2 3)
     = Inr (180, 675)
   \<and> map_sum id (\<lambda>est. (time_required est, cost_estimate est)) (get_cleaning_estimate depot 2 4)
     = Inr (120, 450)
   \<and> fst (create_bulk_tanker_delivery ''250621'' 5 depot 1 (order 1 [assign 2 3 9000]))
     = Inl (ContaminationRisk 2 (Some ''JET-A1'') ''ULSD-10'' True (Some 120))"
proof -
  have c: "compartments depot 2 = Some (depot_compartment 2 1 10000 OPERATIONAL (Some 2))"
    and lp: "last_product depot (depot_compartment 2 1 10000 OPERATIONAL (Some 2)) = Some product_JET_A1"
    and p3: "products depot 3 = Some product_ULSD10"
    and p4: "products depot 4 = Some product_JET_A"
    and r3: "product_code product_JET_A1 \<in> set (cleaning_required_after product_ULSD10)"
    and r4: "product_code product_JET_A1 \<in> set (cleaning_required_after product_JET_A)"
    by (simp_all add: example_defs last_product_def)
  have rej: "create_bulk_tanker_delivery ''250621'' 5 depot 1 (order 1 [assign 2 3 9000])
     = (Inl (ContaminationRisk 2 (Some ''JET-A1'') ''ULSD-10'' True (Some 120)), depot)"
    by (simp add: handler_defs example_defs)
  from cleaning_estimate_policy [OF c lp p3 r3, of "''250621''" 5 1 "order 1 [assign 2 3 9000]"
         2 "Some ''JET-A1''" "''ULSD-10''" True "Some 120" depot]
       cleaning_estimate_policy [OF c lp p4 r4, of "''250621''" 5 1 "order 1 [assign 2 3 9000]"
         2 "Some ''JET-A1''" "''ULSD-10''" True "Some 120" depot]
       rej
  show ?thesis
    by (auto simp: product_ULSD10_def product_JET_A_def product_JET_A1_def)
qed

section \<open>The request limit on volumes\<close>

text \<open>
  Claim C10. An assignment of more than 50000 litres makes both routes answer
  with the request validation error, whatever the store holds: no compartment
  is looked up and the store is left as it was, also when the compartment
  could take the volume.
\<close>

theorem volume_limit:
  assumes "a \<in> set body" and "assigned_volume_liters a > 50000"
  shows "post_validate_contamination db body = Inl RequestValidationError
       \<and> post_delivery today now db project (request \<lparr> compartment_assignments := body \<rparr>)
           = (Inl RequestValidationError, db)"
proof -
  from assms(2) have "\<not> valid_CompartmentAssignmentRequest a"
    by (simp add: valid_CompartmentAssignmentRequest_def validate_volume_def)
  with assms(1) have "\<not> list_all valid_CompartmentAssignmentRequest body"
    by (auto simp: list_all_iff)
  then show ?thesis
    by (simp add: post_validate_contamination_def post_delivery_def
                  valid_BulkTankerDeliveryRequest_def)
qed

theorem volume_limit_witness:
  "post_validate_contamination depot [assign 5 1 55000] = Inl RequestValidationError
   \<and> post_delivery ''250621'' 5 depot 1 (order 3 [assign 5 1 55000])
       = (Inl RequestValidationError, depot)
   \<and> map_option capacity_liters (compartments depot 5) = Some 60000
   \<and> \<not> isl (validate_cross_contamination depot [assign 5 1 55000])"
proof -
  have m: "assign 5 1 55000 \<in> set [assign 5 1 55000]" by simp
  have v: "assigned_volume_liters (assign 5 1 55000) > 50000" by (simp add: assign_def)
  have r: "order 3 [assign 5 1 55000]
             = (order 3 []) \<lparr> compartment_assignments := [assign 5 1 55000] \<rparr>"
    by (simp add: order_def)
  from volume_limit [OF m v, of depot "''250621''" 5 1 "order 3 []"] r show ?thesis
    by (simp add: handler_defs example_defs)
qed

section \<open>Status updates\<close>




section \<open>Cancellation\<close>

text \<open>
  Claim C7, as stated, fails: cancelling the planned delivery stores
  \<open>cancelled\<close> on the delivery and leaves its open assignment in state
  \<open>assigned\<close>.
\<close>

theorem cancel_cascade_counterexample:
  "map_option delivery_status
      (deliveries (snd (put_delivery_status 7 tracking 1 (status_request ''cancelled''))) 1)
     = Some ''cancelled''
   \<and> map (\<lambda>r. (ca_delivery_id r, assignment_status r))
        (assignments (snd (put_delivery_status 7 tracking 1 (status_request ''cancelled''))))
     = [(1, ''assigned''), (1, ''completed'')]"
  by (simp add: put_delivery_status_def update_delivery_status_def valid_DeliveryStatusUpdate_def
                regex_alternatives_def delivery_statuses_def example_defs Let_def)

text \<open>
  Claim C7, amended. A status update, to \<open>cancelled\<close> or to any other status,
  changes the delivery row only: every assignment row, completed or not, is
  left untouched.
\<close>

theorem status_update_keeps_assignments:
  "assignments (snd (put_delivery_status now db did u)) = assignments db"
  by (simp add: put_delivery_status_def update_delivery_status_def Let_def
           split: option.splits)

section \<open>What the creation reads from the store\<close>

lemma check_one_pass_iff:
  "\<not> isl (check_one db a) \<longleftrightarrow>
     (\<exists>c p. compartments db (compartment_id a) = Some c
           \<and> products db (fuel_product_id a) = Some p
           \<and> assigned_volume_liters a \<le> capacity_liters c)"
  by (auto simp: check_one_def check_assignment_def Let_def split: option.splits)

lemma validate_loop_cong:
  "(\<And>a. check_one db' a = check_one db a) \<Longrightarrow>
     validate_loop db' body acc = validate_loop db body acc"
  by (induction body arbitrary: acc) (auto split: sum.splits)

lemma totals_loop_cong:
  "products db' = products db \<Longrightarrow> totals_loop db' body v w = totals_loop db body v w"
  by (induction body arbitrary: v w) (auto split: option.splits)

lemma add_assignments_isl:
  "isl (add_assignments db did body) \<longleftrightarrow> (\<exists>a\<in>set body. products db (fuel_product_id a) = None)"
  by (induction body arbitrary: db) (auto split: option.splits)

lemma totals_loop_isl:
  "isl (totals_loop db body v w) \<longleftrightarrow> (\<exists>a\<in>set body. products db (fuel_product_id a) = None)"
  by (induction body arbitrary: v w) (auto split: option.splits)

lemma add_assignments_after_totals:
  assumes "totals_loop db body v w = Inr r" and "products s = products db"
  shows "\<exists>s'. add_assignments s did body = Inr s'"
proof -
  from assms(1) have "\<not> isl (totals_loop db body v w)" by simp
  with assms(2) have "\<not> isl (add_assignments s did body)"
    by (simp add: totals_loop_isl add_assignments_isl)
  then show ?thesis by (cases "add_assignments s did body") auto
qed

text \<open>The outcome of the creation, without the store.\<close>

lemma create_outcome:
  "fst (create_bulk_tanker_delivery today now db project request) =
     (case find_tanker db (tanker_vehicle_id request) project of
        None \<Rightarrow> Inl TankerNotFound
      | Some t \<Rightarrow>
          if \<not> dot_certified t \<or> certification_status t \<noteq> CERTIFIED
          then Inl (ComplianceViolation (tv_id t) (last_inspection t)
                      (certification_value (certification_status t))
                      [''DOT inspection'', ''Hazmat certification renewal''])
          else
            (case validate_cross_contamination db (compartment_assignments request) of
               Inl e \<Rightarrow> Inl e
             | Inr compartment_checks \<Rightarrow>
                 (case filter contamination_risk compartment_checks of
                    issue # _ \<Rightarrow>
                      Inl (ContaminationRisk (ck_compartment_id issue) (current_product issue)
                             (requested_product issue) (cleaning_required issue)
                             (estimated_cleaning_time_minutes issue))
                  | [] \<Rightarrow>
                      (case totals_loop db (compartment_assignments request) 0 (Decimal 0 0) of
                         Inl e \<Rightarrow> Inl e
                       | Inr (total_volume, total_weight) \<Rightarrow>
                           (case dec_div (Decimal_of_int total_volume)
                                   (Decimal_of_int (total_capacity_liters t)) of
                              None \<Rightarrow> Inl DecimalException
                            | Some ratio \<Rightarrow>
                                Inr (new_delivery today now project request t
                                       (delivery_seq db) total_volume total_weight ratio))))))"
proof -
  have "\<And>tv tw (d :: BulkTankerDeliveries) (s :: store).
      totals_loop db (compartment_assignments request) 0 (Decimal 0 0) = Inr (tv, tw)
      \<Longrightarrow> products s = products db
      \<Longrightarrow> fst (case add_assignments s (dl_id d) (compartment_assignments request) of
                 Inl e \<Rightarrow> (Inl e, db) | Inr committed \<Rightarrow> (Inr d, committed)) = Inr d"
  proof -
    fix tv tw and d :: BulkTankerDeliveries and s :: store
    assume "totals_loop db (compartment_assignments request) 0 (Decimal 0 0) = Inr (tv, tw)"
      and "products s = products db"
    from add_assignments_after_totals [OF this, of "dl_id d"] obtain s' where
      "add_assignments s (dl_id d) (compartment_assignments request) = Inr s'" ..
    then show "fst (case add_assignments s (dl_id d) (compartment_assignments request) of
                 Inl e \<Rightarrow> (Inl e, db) | Inr committed \<Rightarrow> (Inr d, committed)) = Inr d"
      by simp
  qed
  then show ?thesis
    by (simp add: create_bulk_tanker_delivery_def Let_def
             split: option.split sum.split list.split prod.split)
qed

lemma create_outcome_cong:
  assumes tanker: "rel_option (\<lambda>t' t. dot_certified t' = dot_certified t
              \<and> certification_status t' = certification_status t \<and> tv_id t' = tv_id t
              \<and> last_inspection t' = last_inspection t
              \<and> total_capacity_liters t' = total_capacity_liters t)
            (find_tanker db' (tanker_vehicle_id request) project)
            (find_tanker db (tanker_vehicle_id request) project)"
    and checks: "\<And>a. check_one db' a = check_one db a"
    and prods: "products db' = products db"
    and seq: "delivery_seq db' = delivery_seq db"
  shows "fst (create_bulk_tanker_delivery today now db' project request)
       = fst (create_bulk_tanker_delivery today now db project request)"
proof (cases "find_tanker db (tanker_vehicle_id request) project")
  case None
  with tanker have "find_tanker db' (tanker_vehicle_id request) project = None"
    by (cases "find_tanker db' (tanker_vehicle_id request) project") auto
  with None show ?thesis by (simp add: create_outcome)
next
  case (Some t)
  with tanker obtain t' where t': "find_tanker db' (tanker_vehicle_id request) project = Some t'"
    and same: "dot_certified t' = dot_certified t" "certification_status t' = certification_status t"
      "tv_id t' = tv_id t" "last_inspection t' = last_inspection t"
      "total_capacity_liters t' = total_capacity_liters t"
    by (cases "find_tanker db' (tanker_vehicle_id request) project") auto
  have v: "validate_cross_contamination db' (compartment_assignments request)
         = validate_cross_contamination db (compartment_assignments request)"
    using validate_loop_cong [of db' db, OF checks] by (simp add: validate_cross_contamination_def)
  have tl: "totals_loop db' (compartment_assignments request) 0 (Decimal 0 0)
          = totals_loop db (compartment_assignments request) 0 (Decimal 0 0)"
    using totals_loop_cong [OF prods] .
  have nd: "\<And>did tv tw r. new_delivery today now project request t' did tv tw r
                         = new_delivery today now project request t did tv tw r"
    by (simp add: new_delivery_def same)
  show ?thesis
    by (simp add: create_outcome Some t' same v tl seq nd
             cong: sum.case_cong list.case_cong option.case_cong)
qed

section \<open>Capacity overflow\<close>




section \<open>Batch rejection on contamination risk\<close>




section \<open>The certification check\<close>

text \<open>
  Claim C2, as stated, fails. Tanker 3 has no hazmat certification and ULSD is
  a hazmat class 3 product (a flammable liquid); the creation succeeds all the
  same.
\<close>

theorem hazmat_gate_counterexample:
  "map_option hazmat_certification (vehicles depot 3) = Some False
   \<and> map_option hazmat_class (products depot 1) = Some ''3''
   \<and> map_sum id (\<lambda>d. (dl_tanker_vehicle_id d, total_volume_liters d, delivery_status d))
        (fst (create_bulk_tanker_delivery ''250621'' 5 depot 1 (order 3 [assign 5 1 9000])))
       = Inr (3, 9000, ''planned'')"
  by (simp add: handler_defs example_defs decimal_eval)

text \<open>
  Claim C2, amended. The creation succeeds only if the tanker has
  \<open>dot_certified\<close> set and \<open>certification_status = certified\<close>. A tanker that is
  found but fails this check makes the creation fail with the compliance
  violation, carrying the vehicle id, the last inspection date, the
  certification status and the two required actions, and nothing is stored.
  \<open>hazmat_certification\<close> is not read: the outcome is the same whatever its
  value, for any assigned products.
\<close>

theorem compliance_gate:
  assumes "find_tanker db (tanker_vehicle_id request) project = Some t"
  shows "(\<not> dot_certified t \<or> certification_status t \<noteq> CERTIFIED \<longrightarrow>
            create_bulk_tanker_delivery today now db project request
              = (Inl (ComplianceViolation (tv_id t) (last_inspection t)
                        (certification_value (certification_status t))
                        [''DOT inspection'', ''Hazmat certification renewal'']), db))
     \<and> (\<not> isl (fst (create_bulk_tanker_delivery today now db project request)) \<longrightarrow>
            dot_certified t \<and> certification_status t = CERTIFIED)
     \<and> fst (create_bulk_tanker_delivery today now
               (db \<lparr> vehicles := (vehicles db)
                       (tanker_vehicle_id request \<mapsto> t \<lparr> hazmat_certification := h \<rparr>) \<rparr>)
               project request)
         = fst (create_bulk_tanker_delivery today now db project request)"
proof (intro conjI impI)
  assume "\<not> dot_certified t \<or> certification_status t \<noteq> CERTIFIED"
  with assms show "create_bulk_tanker_delivery today now db project request
              = (Inl (ComplianceViolation (tv_id t) (last_inspection t)
                        (certification_value (certification_status t))
                        [''DOT inspection'', ''Hazmat certification renewal'']), db)"
    by (auto simp: create_bulk_tanker_delivery_def)
next
  assume "\<not> isl (fst (create_bulk_tanker_delivery today now db project request))"
  with assms show "dot_certified t" and "certification_status t = CERTIFIED"
    by (auto simp: create_outcome split: if_splits)
next
  let ?db' = "db \<lparr> vehicles := (vehicles db)
                       (tanker_vehicle_id request \<mapsto> t \<lparr> hazmat_certification := h \<rparr>) \<rparr>"
  from assms have proj: "tv_project_id t = project"
    by (auto simp: find_tanker_def split: option.splits if_splits)
  then have "find_tanker ?db' (tanker_vehicle_id request) project
               = Some (t \<lparr> hazmat_certification := h \<rparr>)"
    by (simp add: find_tanker_def)
  with assms have rel: "rel_option (\<lambda>t' t. dot_certified t' = dot_certified t
              \<and> certification_status t' = certification_status t \<and> tv_id t' = tv_id t
              \<and> last_inspection t' = last_inspection t
              \<and> total_capacity_liters t' = total_capacity_liters t)
            (find_tanker ?db' (tanker_vehicle_id request) project)
            (find_tanker db (tanker_vehicle_id request) project)"
    by simp
  have "\<And>a. check_one ?db' a = check_one db a"
    by (simp add: check_one_def last_product_def cong: option.case_cong)
  from create_outcome_cong [OF rel this]
  show "fst (create_bulk_tanker_delivery today now ?db' project request)
         = fst (create_bulk_tanker_delivery today now db project request)"
    by simp
qed

theorem compliance_gate_witness:
  "create_bulk_tanker_delivery ''250621'' 5 depot 1 (order 2 [assign 4 1 9000])
     = (Inl (ComplianceViolation 2 (Some 100) ''expired''
               [''DOT inspection'', ''Hazmat certification renewal'']), depot)
   \<and> \<not> isl (fst (create_bulk_tanker_delivery ''250621'' 5 depot 1 (order 1 [assign 1 1 9000])))
   \<and> dot_certified (depot_tanker 1 30000 True CERTIFIED)
   \<and> certification_status (depot_tanker 1 30000 True CERTIFIED) = CERTIFIED"
proof -
  have t2: "find_tanker depot (tanker_vehicle_id (order 2 [assign 4 1 9000])) 1
              = Some (depot_tanker 2 30000 True EXPIRED)"
    and t1: "find_tanker depot (tanker_vehicle_id (order 1 [assign 1 1 9000])) 1
              = Some (depot_tanker 1 30000 True CERTIFIED)"
    by (simp_all add: find_tanker_def example_defs)
  have expired: "certification_status (depot_tanker 2 30000 True EXPIRED) \<noteq> CERTIFIED"
    by (simp add: depot_tanker_def)
  have created:
    "\<not> isl (fst (create_bulk_tanker_delivery ''250621'' 5 depot 1 (order 1 [assign 1 1 9000])))"
    by (simp add: handler_defs example_defs decimal_eval)
  from compliance_gate [OF t2, where today = "''250621''" and now = 5 and h = True]
       compliance_gate [OF t1, where today = "''250621''" and now = 5 and h = True]
       expired created
  show ?thesis
    by (simp add: depot_tanker_def)
qed

section \<open>Referenced compartments\<close>

text \<open>
  Claim C8, as stated, fails. Compartment 4 belongs to tanker 2 and is under
  maintenance; a delivery for tanker 1 that assigns it is created.
\<close>

theorem foreign_compartment_counterexample:
  "map_option (\<lambda>c. (tc_tanker_vehicle_id c, operational_status c)) (compartments depot 4)
     = Some (2, MAINTENANCE_REQUIRED)
   \<and> map_sum id (\<lambda>d. (dl_tanker_vehicle_id d, total_volume_liters d, delivery_status d))
        (fst (create_bulk_tanker_delivery ''250621'' 5 depot 1 (order 1 [assign 4 1 9000])))
       = Inr (1, 9000, ''planned'')
   \<and> map (\<lambda>r. (ca_delivery_id r, ca_compartment_id r, assignment_status r))
        (assignments (snd (create_bulk_tanker_delivery ''250621'' 5 depot 1
                             (order 1 [assign 4 1 9000]))))
       = [(1, 4, ''assigned'')]"
  by (simp add: handler_defs example_defs decimal_eval)

text \<open>
  Claim C8, amended. Each referenced compartment must exist: it is looked up
  by its id alone, and an assignment whose compartment does not exist makes
  the creation fail with nothing stored. Neither the owning vehicle nor the
  operational status of a compartment is read: the outcome of a creation is
  the same whatever vehicle owns the compartments and whatever their status.
\<close>

theorem compartment_lookup_only:
  "(a \<in> set (compartment_assignments request) \<longrightarrow> compartments db (compartment_id a) = None \<longrightarrow>
       (\<exists>e. create_bulk_tanker_delivery today now db project request = (Inl e, db)))
   \<and> fst (create_bulk_tanker_delivery today now
             (db \<lparr> compartments := (\<lambda>k. map_option
                      (\<lambda>c. c \<lparr> tc_tanker_vehicle_id := owner k, operational_status := status k \<rparr>)
                      (compartments db k)) \<rparr>)
             project request)
       = fst (create_bulk_tanker_delivery today now db project request)"
proof (intro conjI impI)
  assume a: "a \<in> set (compartment_assignments request)"
    and none: "compartments db (compartment_id a) = None"
  then have fails: "isl (check_one db a)" by (simp add: check_one_def)
  have "isl (validate_cross_contamination db (compartment_assignments request))"
  proof (cases "validate_cross_contamination db (compartment_assignments request)")
    case (Inr checks)
    then have "\<forall>b\<in>set (compartment_assignments request). \<not> isl (check_one db b)"
      using validate_loop_Inr [of db "compartment_assignments request" "[]" checks]
      by (simp add: validate_cross_contamination_def)
    with fails a show ?thesis by auto
  qed simp
  then have "isl (fst (create_bulk_tanker_delivery today now db project request))"
    by (auto simp: create_outcome split: option.splits sum.splits)
  moreover obtain out db' where
    out: "create_bulk_tanker_delivery today now db project request = (out, db')"
    by (cases "create_bulk_tanker_delivery today now db project request")
  ultimately obtain e where "out = Inl e" by (cases out) auto
  with out create_error_store [of today now db project request e db']
  show "\<exists>e. create_bulk_tanker_delivery today now db project request = (Inl e, db)"
    by auto
next
  let ?db' = "db \<lparr> compartments := (\<lambda>k. map_option
                      (\<lambda>c. c \<lparr> tc_tanker_vehicle_id := owner k, operational_status := status k \<rparr>)
                      (compartments db k)) \<rparr>"
  have rel: "rel_option (\<lambda>t' t. dot_certified t' = dot_certified t
              \<and> certification_status t' = certification_status t \<and> tv_id t' = tv_id t
              \<and> last_inspection t' = last_inspection t
              \<and> total_capacity_liters t' = total_capacity_liters t)
            (find_tanker ?db' (tanker_vehicle_id request) project)
            (find_tanker db (tanker_vehicle_id request) project)"
    by (simp add: find_tanker_def option.rel_refl split: option.splits)
  have "\<And>a. check_one ?db' a = check_one db a"
  proof -
    fix a
    show "check_one ?db' a = check_one db a"
    proof (cases "compartments db (compartment_id a)")
      case None
      then show ?thesis by (simp add: check_one_def)
    next
      case (Some c)
      let ?c' = "c \<lparr> tc_tanker_vehicle_id := owner (compartment_id a),
                      operational_status := status (compartment_id a) \<rparr>"
      have lp: "last_product ?db' ?c' = last_product db c"
        by (simp add: last_product_def cong: option.case_cong)
      have "\<And>p. check_assignment a ?c' (last_product db c) p
                  = check_assignment a c (last_product db c) p"
        by (simp add: check_assignment_def Let_def)
      with Some lp show ?thesis
        by (simp add: check_one_def cong: option.case_cong)
    qed
  qed
  from create_outcome_cong [OF rel this]
  show "fst (create_bulk_tanker_delivery today now ?db' project request)
         = fst (create_bulk_tanker_delivery today now db project request)"
    by simp
qed

theorem compartment_lookup_only_witness:
  "create_bulk_tanker_delivery ''250621'' 5 depot 1 (order 1 [assign 1 1 9000, assign 8 1 500])
     = (Inl (CompartmentNotFound 8), depot)"
proof -
  let ?r = "order 1 [assign 1 1 9000, assign 8 1 500]"
  have a: "assign 8 1 500 \<in> set (compartment_assignments ?r)" by (simp add: order_def)
  have none: "compartments depot (compartment_id (assign 8 1 500)) = None"
    by (simp add: example_defs)
  have "fst (create_bulk_tanker_delivery ''250621'' 5 depot 1 ?r) = Inl (CompartmentNotFound 8)"
    by (simp add: handler_defs example_defs)
  moreover from compartment_lookup_only [of "assign 8 1 500" ?r depot "''250621''" 5 1] a none
  obtain e where "create_bulk_tanker_delivery ''250621'' 5 depot 1 ?r = (Inl e, depot)"
    by blast
  ultimately show ?thesis by simp
qed

section \<open>Exact decimal arithmetic\<close>

lemma ndigits_bound: "n < 10 ^ k \<Longrightarrow> 0 < k \<Longrightarrow> ndigits n \<le> k"
proof (induction k arbitrary: n)
  case 0
  then show ?case by simp
next
  case (Suc k)
  show ?case
  proof (cases "n < 10")
    case True
    then show ?thesis by (simp add: ndigits.simps [of n])
  next
    case False
    with Suc.prems have k: "0 < k" by (cases k) auto
    from Suc.prems have "n div 10 < 10 ^ k"
      by (simp add: less_mult_imp_div_less mult.commute)
    from Suc.IH [OF this k] False show ?thesis
      by (simp add: ndigits.simps [of n])
  qed
qed

lemma dec_fix_small: "\<bar>c\<bar> < 10 ^ 28 \<Longrightarrow> dec_fix c e = Decimal c e"
proof -
  assume "\<bar>c\<bar> < 10 ^ 28"
  then have "nat \<bar>c\<bar> < 10 ^ 28" by (simp add: nat_less_iff)
  then have "ndigits (nat \<bar>c\<bar>) \<le> 28" by (rule ndigits_bound) simp
  then have "ndigits (nat \<bar>c\<bar>) \<le> prec" by (simp only: prec_def)
  then show ?thesis by (simp add: dec_fix_def)
qed

lemma pow10_powi: "pow10 e = 10 powi e"
  by (simp add: pow10_def power_int_def inverse_eq_divide power_one_over)

lemma pow10_add: "pow10 (a + b) = pow10 a * pow10 b"
  by (simp add: pow10_powi power_int_add)



lemma dec_val_mul:
  "\<bar>coefficient x * coefficient y\<bar> < 10 ^ 28 \<Longrightarrow> dec_val (dec_mul x y) = dec_val x * dec_val y"
  by (simp add: dec_mul_def dec_fix_small dec_val_def pow10_add)









section \<open>Totals of a created delivery\<close>



end
